theory Spec2Isabelle
  imports Complex_Main "HOL-Library.Product_Lexorder" "HOL-Library.Multiset"
begin

section \<open>The ISEEC scoring engine of \<^verbatim>\<open>app.py\<close>\<close>

text \<open>
  The scoring functions of \<^verbatim>\<open>app.py\<close> are pure. Python's \<^verbatim>\<open>float\<close> is modelled by
  \<^typ>\<open>real\<close> (exact arithmetic: no rounding, no NaN), Python's \<^verbatim>\<open>int\<close> by \<^typ>\<open>int\<close>.
  The one non-finite value the code itself produces and tests for, \<^verbatim>\<open>float('inf')\<close>,
  is a constructor of its own. A true division of Python floats raises
  \<^verbatim>\<open>ZeroDivisionError\<close> on a zero divisor; that is a value of the model.

  The catalogs' labels are Cyrillic text in the source; they are rendered here in
  English, in the source's order and with the source's point values.
\<close>

subsection \<open>Values and errors\<close>

datatype py_error = ZeroDivisionError

datatype py_float = Finite real | Infinity

definition py_truediv :: "real \<Rightarrow> real \<Rightarrow> py_error + real" where
  "py_truediv a b = (if b = 0 then Inl ZeroDivisionError else Inr (a / b))"

subsection \<open>The criteria catalogs\<close>

definition TRANSP_CRITERIA :: "string list" where
  "TRANSP_CRITERIA =
    [''Annual report is published on the official site'',
     ''Financial statements are certified by an external auditor'',
     ''A sustainability report (ESG/CSR) is published'',
     ''Reporting follows international standards (GRI, SASB)'',
     ''Ownership structure is disclosed'',
     ''Governing bodies are disclosed with biographies'',
     ''Top management remuneration is disclosed'',
     ''The material facts section is updated regularly'',
     ''The site lists contacts for investors, media, job seekers'',
     ''An English version of the annual report or site is available'']"

definition INST_CRITERIA :: "(string \<times> int) list" where
  "INST_CRITERIA =
    [(''The company has a communications department'', 10),
     (''The head of communications is part of top management'', 10),
     (''The site publishes corporate news and press office contacts'', 10),
     (''The site publishes corporate news at least 4 times a month'', 10),
     (''The company runs an official VK community'', 5),
     (''The company runs an official Telegram channel'', 5),
     (''The communication strategy is publicly available'', 10),
     (''A feedback mechanism is provided'', 10),
     (''Crisis communication procedures exist'', 10),
     (''Membership in a professional association'', 10),
     (''Awards or recognition in communications in the last 3 years'', 10),
     (''KPIs of the communications department are tied to business indicators'', 10),
     (''Regular monitoring of reputation or stakeholder perception'', 10)]"

text \<open>
  The caller builds \<^verbatim>\<open>inst_scores\<close> by appending the score of every entry of
  \<^verbatim>\<open>INST_CRITERIA\<close>, in order.
\<close>

definition inst_scores :: "int list" where
  "inst_scores = map snd INST_CRITERIA"

subsection \<open>Checklist scores and the reputation subindex\<close>

text \<open>\<^verbatim>\<open>sum([10 if ind else 0 for ind in indicators])\<close>: a sum of Python ints.\<close>

definition calculate_r_transp :: "bool list \<Rightarrow> int" where
  "calculate_r_transp indicators = sum_list (map (\<lambda>ind. if ind then 10 else 0) indicators)"

text \<open>
  The loop of \<^verbatim>\<open>calculate_r_inst\<close> over \<^verbatim>\<open>zip(indicators, scores)\<close>, with the running
  \<^verbatim>\<open>total\<close> as the accumulator \<open>tot\<close>; \<^verbatim>\<open>zip\<close> stops at the shorter list, as \<^const>\<open>zip\<close> does.
\<close>

fun r_inst_loop :: "(bool \<times> int) list \<Rightarrow> int \<Rightarrow> int" where
  "r_inst_loop [] tot = tot"
| "r_inst_loop ((ind, score) # rest) tot =
     r_inst_loop rest (if ind then tot + score else tot)"

text \<open>The value of \<^verbatim>\<open>total\<close> when the loop ends, before the cap.\<close>

definition r_inst_total :: "bool list \<Rightarrow> int list \<Rightarrow> int" where
  "r_inst_total indicators scores = r_inst_loop (zip indicators scores) 0"

definition calculate_r_inst :: "bool list \<Rightarrow> int list \<Rightarrow> int" where
  "calculate_r_inst indicators scores = min (r_inst_total indicators scores) 100"

definition calculate_s_rep :: "real \<Rightarrow> real \<Rightarrow> real \<Rightarrow> real" where
  "calculate_s_rep v_hr r_transp r_inst = (v_hr + r_transp + r_inst) / 3"

subsection \<open>Media stability\<close>

definition calculate_i_media :: "real \<Rightarrow> real \<Rightarrow> py_error + real" where
  "calculate_i_media val_i x_ref =
     (if x_ref \<le> 0 then Inr 0
      else case py_truediv val_i x_ref of
             Inl e \<Rightarrow> Inl e
           | Inr q \<Rightarrow>
               (let i_media = q * 100
                in if i_media < 0 then Inr 0
                   else if i_media > 100 then Inr 100
                   else Inr i_media))"

text \<open>
  \<^verbatim>\<open>np.mean\<close> and \<^verbatim>\<open>np.std(..., ddof=0)\<close> are NumPy's: the arithmetic mean, and the
  square root of the mean of the squared absolute deviations from it (divisor: the
  number of elements).
\<close>

definition np_mean :: "real list \<Rightarrow> real" where
  "np_mean xs = sum_list xs / real (length xs)"

definition np_std :: "real list \<Rightarrow> real" where
  "np_std xs = sqrt (np_mean (map (\<lambda>x. \<bar>x - np_mean xs\<bar> ^ 2) xs))"

text \<open>
  \<^verbatim>\<open>x_ref\<close> defaults to \<^verbatim>\<open>None\<close>; the test \<^verbatim>\<open>x_ref and x_ref > 0\<close> is false for
  \<^verbatim>\<open>None\<close> and for zero by truthiness, and for a negative number by the comparison.
  The quotient \<^verbatim>\<open>sigma / mu\<close> is a NumPy division, which does not raise.
\<close>

definition calculate_v_vol :: "real list \<Rightarrow> real option \<Rightarrow> py_float" where
  "calculate_v_vol monthly_values x_ref =
     (if length monthly_values < 2 then Finite 0
      else
        let mu = np_mean monthly_values;
            threshold = (case x_ref of
                           None \<Rightarrow> 1
                         | Some x \<Rightarrow> if x \<noteq> 0 \<and> x > 0 then x * 0.01 else 1)
        in if mu < threshold then Infinity
           else
             let sigma = np_std monthly_values;
                 v_vol = sigma / mu
             in Finite v_vol)"

fun calculate_m_stab :: "real \<Rightarrow> py_float \<Rightarrow> py_error + real" where
  "calculate_m_stab i_media Infinity = Inr 0"
| "calculate_m_stab i_media (Finite v_vol) = py_truediv i_media (1 + v_vol)"

subsection \<open>Employer brand, budget discipline, rating\<close>

text \<open>
  The parameters \<^verbatim>\<open>total\<close> and \<^verbatim>\<open>fact\<close> of the source are \<open>total_n\<close> and \<open>fact_v\<close>
  here: the source's names are constants of HOL.
\<close>

definition calculate_v_hr :: "int \<Rightarrow> int \<Rightarrow> py_error + real" where
  "calculate_v_hr rank total_n =
     (if total_n \<le> 1 then Inr 0
      else case py_truediv (real_of_int (rank - 1)) (real_of_int (total_n - 1)) of
             Inl e \<Rightarrow> Inl e
           | Inr q \<Rightarrow> (let v_hr = (1 - q) * 100 in Inr (max 0 (min 100 v_hr))))"

definition get_k_budget :: "real \<Rightarrow> real \<Rightarrow> bool \<Rightarrow> py_error + real" where
  "get_k_budget plan fact_v has_approval =
     (if plan \<le> 0 then Inr 0
      else case py_truediv (fact_v - plan) plan of
             Inl e \<Rightarrow> Inl e
           | Inr q \<Rightarrow>
               (let deviation = q * 100
                in if deviation > 10 \<and> \<not> has_approval then Inr (- 0.10) else Inr 0))"

text \<open>
  \<^verbatim>\<open>get_quality_rating\<close> returns a triple: the level (a Russian label in the source),
  a coloured-circle emoji and a colour code.
\<close>

datatype rating = Very_High | High | Medium | Low | Critically_Low

datatype marker = Green_Circle | Yellow_Circle | Orange_Circle | Red_Circle

definition get_quality_rating :: "real \<Rightarrow> rating \<times> marker \<times> string" where
  "get_quality_rating v =
     (if v > 100 then (Very_High, Green_Circle, ''#28a745'')
      else if v \<ge> 76 then (High, Green_Circle, ''#28a745'')
      else if v \<ge> 51 then (Medium, Yellow_Circle, ''#ffc107'')
      else if v \<ge> 26 then (Low, Orange_Circle, ''#fd7e14'')
      else (Critically_Low, Red_Circle, ''#dc3545''))"

subsection \<open>Recommendations\<close>

record recommendation =
  area :: string
  action :: string
  potential :: int
  priority :: int

text \<open>The first loop: one entry for every transparency criterion that is not done.\<close>

definition transp_gaps :: "bool list \<Rightarrow> recommendation list" where
  "transp_gaps transp_indicators =
     map (\<lambda>(done, label).
            \<lparr>area = ''Transparency'', action = label, potential = 10, priority = 2\<rparr>)
         (filter (\<lambda>(done, label). \<not> done) (zip transp_indicators TRANSP_CRITERIA))"

text \<open>The second loop, over \<^verbatim>\<open>zip(INST_CRITERIA, inst_indicators)\<close>.\<close>

definition inst_gaps :: "bool list \<Rightarrow> recommendation list" where
  "inst_gaps inst_indicators =
     map (\<lambda>((label, score), done).
            \<lparr>area = ''Institutional maturity'', action = label, potential = score,
             priority = (if score = 10 then 2 else 3)\<rparr>)
         (filter (\<lambda>((label, score), done). \<not> done) (zip INST_CRITERIA inst_indicators))"

definition hr_brand_item :: recommendation where
  "hr_brand_item =
     \<lparr>area = ''HR brand'',
      action = ''Take part in the Russian Employers Rating (hh.ru)'',
      potential = 50, priority = 1\<rparr>"

definition media_activity_item :: recommendation where
  "media_activity_item =
     \<lparr>area = ''Media activity'',
      action = ''Strengthen media presence, increase the number of publications'',
      potential = 30, priority = 1\<rparr>"

text \<open>The list \<^verbatim>\<open>recommendations\<close> as it stands just before it is sorted.\<close>

definition collect_recommendations ::
  "bool list \<Rightarrow> bool list \<Rightarrow> real \<Rightarrow> real \<Rightarrow> recommendation list" where
  "collect_recommendations transp_indicators inst_indicators v_hr m_stab =
     transp_gaps transp_indicators @ inst_gaps inst_indicators
       @ (if v_hr < 50 then [hr_brand_item] else [])
       @ (if m_stab < 50 then [media_activity_item] else [])"

text \<open>
  The sort key \<^verbatim>\<open>(x["priority"], -x["potential"])\<close>; Python compares tuples
  lexicographically, which is the order on pairs of \<^verbatim>\<open>HOL-Library.Product_Lexorder\<close>.
\<close>

definition sort_key_of :: "recommendation \<Rightarrow> int \<times> int" where
  "sort_key_of x = (priority x, - potential x)"

text \<open>
  \<^verbatim>\<open>list.sort\<close> is a stable sort, as \<^const>\<open>sort_key\<close> is; \<^verbatim>\<open>recommendations[:5]\<close>
  is \<^term>\<open>take 5\<close>. The parameter \<^verbatim>\<open>inst_scores\<close> is not read by the source.
\<close>

definition generate_recommendations ::
  "bool list \<Rightarrow> bool list \<Rightarrow> int list \<Rightarrow> real \<Rightarrow> real \<Rightarrow> recommendation list" where
  "generate_recommendations transp_indicators inst_indicators inst_scores_arg v_hr m_stab =
     take 5 (sort_key sort_key_of
               (collect_recommendations transp_indicators inst_indicators v_hr m_stab))"

subsection \<open>The volatility rule in the specification's words\<close>

text \<open>
  The specification's noise threshold (1 percent of \<open>x_ref\<close> when it is known and
  positive, else the absolute floor 1), population mean and population standard
  deviation (divisor: the count), to be compared with \<^const>\<open>calculate_v_vol\<close>.
\<close>

definition noise_threshold :: "real option \<Rightarrow> real" where
  "noise_threshold x_ref = (case x_ref of None \<Rightarrow> 1 | Some x \<Rightarrow> if 0 < x then x / 100 else 1)"

definition population_mean :: "real list \<Rightarrow> real" where
  "population_mean xs = (\<Sum>x\<leftarrow>xs. x) / real (length xs)"

definition population_std :: "real list \<Rightarrow> real" where
  "population_std xs =
     sqrt ((\<Sum>x\<leftarrow>xs. (x - population_mean xs) ^ 2) / real (length xs))"

subsection \<open>The ranking in the specification's words\<close>

text \<open>
  The specification's order (ascending by priority, then descending by potential), and
  its checklist gaps: the entries of the two checklist areas, as opposed to the two
  fixed entries for a weak employer brand and weak media activity.
\<close>

definition ranked_before :: "recommendation \<Rightarrow> recommendation \<Rightarrow> bool" where
  "ranked_before a b \<longleftrightarrow>
     priority a < priority b \<or> (priority a = priority b \<and> potential b \<le> potential a)"

definition is_checklist_gap :: "recommendation \<Rightarrow> bool" where
  "is_checklist_gap x \<longleftrightarrow> area x = ''Transparency'' \<or> area x = ''Institutional maturity''"

section \<open>Properties\<close>

subsection \<open>Checklist sums\<close>

lemma r_transp_count:
  "calculate_r_transp indicators = 10 * int (length (filter (\<lambda>ind. ind) indicators))"
  unfolding calculate_r_transp_def by (induction indicators) simp_all

lemma r_transp_le_length: "calculate_r_transp indicators \<le> 10 * int (length indicators)"
proof -
  have "length (filter (\<lambda>ind. ind) indicators) \<le> length indicators"
    by (rule length_filter_le)
  then show ?thesis unfolding r_transp_count by simp
qed

lemma r_transp_nonneg: "0 \<le> calculate_r_transp indicators"
  unfolding r_transp_count by simp

lemma r_inst_loop_acc:
  "r_inst_loop ps tot = tot + sum_list (map snd (filter fst ps))"
  by (induction ps tot rule: r_inst_loop.induct) simp_all

lemma r_inst_total_sum:
  "r_inst_total indicators scores = sum_list (map snd (filter fst (zip indicators scores)))"
  unfolding r_inst_total_def by (simp add: r_inst_loop_acc)

lemma satisfied_sum_bounds:
  assumes "\<forall>s \<in> set scores. (0::int) \<le> s"
  shows "0 \<le> sum_list (map snd (filter fst (zip indicators scores)))
       \<and> sum_list (map snd (filter fst (zip indicators scores))) \<le> sum_list scores"
  using assms
proof (induction scores arbitrary: indicators)
  case Nil
  then show ?case by simp
next
  case (Cons s scores)
  show ?case
  proof (cases indicators)
    case Nil
    have "0 \<le> sum_list (s # scores)"
      using Cons.prems by (intro sum_list_nonneg) auto
    with Nil show ?thesis by simp
  next
    case (Cons ind rest)
    have ih: "0 \<le> sum_list (map snd (filter fst (zip rest scores)))
        \<and> sum_list (map snd (filter fst (zip rest scores))) \<le> sum_list scores"
      using Cons.IH Cons.prems by simp
    have "0 \<le> s" using Cons.prems by simp
    with ih Cons show ?thesis by simp
  qed
qed

lemma inst_scores_nonneg: "\<forall>s \<in> set inst_scores. 0 \<le> s"
  by (simp add: inst_scores_def INST_CRITERIA_def)

lemma inst_scores_sum: "sum_list inst_scores = 120"
  by (simp add: inst_scores_def INST_CRITERIA_def)

lemma r_inst_total_catalog_bounds:
  "0 \<le> r_inst_total indicators inst_scores \<and> r_inst_total indicators inst_scores \<le> 120"
  using satisfied_sum_bounds [OF inst_scores_nonneg, of indicators]
  by (simp add: r_inst_total_sum inst_scores_sum)

lemma all_true_total: "r_inst_total (replicate 13 True) inst_scores = 120"
  by (simp add: r_inst_total_def inst_scores_def INST_CRITERIA_def numeral_eq_Suc)

text \<open>
  C10: \<^const>\<open>calculate_r_transp\<close> checks no shape and has no cap. For a list of any
  length it returns 10 times the number of true entries, so more than ten true entries
  give more than 100; the bounds 0 and 100 hold when the list has the length of the
  catalog, and a list of eleven true entries, which does not, gives 110.
\<close>

theorem r_transp_unbounded:
  "calculate_r_transp indicators = 10 * int (length (filter (\<lambda>ind. ind) indicators))
   \<and> (10 < length (filter (\<lambda>ind. ind) indicators) \<longrightarrow> 100 < calculate_r_transp indicators)
   \<and> (length indicators = length TRANSP_CRITERIA \<longrightarrow>
        0 \<le> calculate_r_transp indicators \<and> calculate_r_transp indicators \<le> 100)
   \<and> length (replicate 11 True) \<noteq> length TRANSP_CRITERIA
   \<and> calculate_r_transp (replicate 11 True) = 110"
proof (intro conjI impI)
  show "calculate_r_transp indicators = 10 * int (length (filter (\<lambda>ind. ind) indicators))"
    by (rule r_transp_count)
  show "100 < calculate_r_transp indicators"
    if "10 < length (filter (\<lambda>ind. ind) indicators)"
    using that unfolding r_transp_count by simp
  show "0 \<le> calculate_r_transp indicators"
    by (rule r_transp_nonneg)
  show "calculate_r_transp indicators \<le> 100" if "length indicators = length TRANSP_CRITERIA"
    using r_transp_le_length [of indicators] that by (simp add: TRANSP_CRITERIA_def)
  show "length (replicate 11 True) \<noteq> length TRANSP_CRITERIA"
    by (simp add: TRANSP_CRITERIA_def)
  show "calculate_r_transp (replicate 11 True) = 110"
    unfolding r_transp_count by simp
qed

theorem r_transp_unbounded_witness:
  "10 < length (filter (\<lambda>ind. ind) (replicate 11 True))
   \<and> 100 < calculate_r_transp (replicate 11 True)
   \<and> length (replicate 10 True) = length TRANSP_CRITERIA
   \<and> calculate_r_transp (replicate 10 True) = 100
   \<and> calculate_r_transp (replicate 10 True) \<le> 100"
proof -
  have a: "10 < length (filter (\<lambda>ind. ind) (replicate 11 True))" by simp
  have b: "length (replicate 10 True) = length TRANSP_CRITERIA"
    by (simp add: TRANSP_CRITERIA_def)
  have c: "calculate_r_transp (replicate 10 True) = 100"
    using r_transp_unbounded [of "replicate 10 True"] by simp
  show ?thesis
    using a b c r_transp_unbounded [of "replicate 11 True"]
      r_transp_unbounded [of "replicate 10 True"] by simp
qed

text \<open>
  C7: for a transparency vector of the catalog's length \<^const>\<open>calculate_r_transp\<close> is
  between 0 and 100; for an institutional vector of the catalog's length, with the
  catalog's point values, \<^const>\<open>calculate_r_inst\<close> is between 0 and 100 (also when the
  sum before the cap is above 100, as it is for the all-true vector of the witness); and
  \<^const>\<open>calculate_s_rep\<close> of three values between 0 and 100 is their unweighted mean,
  between 0 and 100.
\<close>

theorem checklist_scores_bounded:
  "(length tv = length TRANSP_CRITERIA \<longrightarrow>
      0 \<le> calculate_r_transp tv \<and> calculate_r_transp tv \<le> 100)
   \<and> (length iv = length INST_CRITERIA \<longrightarrow>
      0 \<le> calculate_r_inst iv inst_scores \<and> calculate_r_inst iv inst_scores \<le> 100)
   \<and> (0 \<le> v_hr \<and> v_hr \<le> 100 \<and> 0 \<le> r_transp \<and> r_transp \<le> 100
        \<and> 0 \<le> r_inst \<and> r_inst \<le> 100 \<longrightarrow>
      calculate_s_rep v_hr r_transp r_inst = (v_hr + r_transp + r_inst) / 3
      \<and> 0 \<le> calculate_s_rep v_hr r_transp r_inst
      \<and> calculate_s_rep v_hr r_transp r_inst \<le> 100)"
proof (intro conjI impI)
  show "0 \<le> calculate_r_transp tv"
    by (rule r_transp_nonneg)
  show "calculate_r_transp tv \<le> 100" if "length tv = length TRANSP_CRITERIA"
    using r_transp_le_length [of tv] that by (simp add: TRANSP_CRITERIA_def)
  show "0 \<le> calculate_r_inst iv inst_scores"
    using r_inst_total_catalog_bounds [of iv] by (simp add: calculate_r_inst_def)
  show "calculate_r_inst iv inst_scores \<le> 100"
    by (simp add: calculate_r_inst_def)
  show "calculate_s_rep v_hr r_transp r_inst = (v_hr + r_transp + r_inst) / 3"
    by (simp add: calculate_s_rep_def)
next
  assume h: "0 \<le> v_hr \<and> v_hr \<le> 100 \<and> 0 \<le> r_transp \<and> r_transp \<le> 100
        \<and> 0 \<le> r_inst \<and> r_inst \<le> 100"
  then show "0 \<le> calculate_s_rep v_hr r_transp r_inst"
    by (simp add: calculate_s_rep_def)
  from h show "calculate_s_rep v_hr r_transp r_inst \<le> 100"
    by (simp add: calculate_s_rep_def)
qed

theorem checklist_scores_bounded_witness:
  "length (replicate 10 True) = length TRANSP_CRITERIA
   \<and> calculate_r_transp (replicate 10 True) \<le> 100
   \<and> length (replicate 13 True) = length INST_CRITERIA
   \<and> 100 < r_inst_total (replicate 13 True) inst_scores
   \<and> calculate_r_inst (replicate 13 True) inst_scores \<le> 100
   \<and> calculate_s_rep 90 100 80 = 90 \<and> calculate_s_rep 90 100 80 \<le> 100"
proof -
  have a: "length (replicate 10 True) = length TRANSP_CRITERIA"
    by (simp add: TRANSP_CRITERIA_def)
  have b: "length (replicate 13 True) = length INST_CRITERIA"
    by (simp add: INST_CRITERIA_def)
  have c: "100 < r_inst_total (replicate 13 True) inst_scores"
    by (simp add: all_true_total)
  show ?thesis
    using a b c
      checklist_scores_bounded [of "replicate 10 True" "replicate 13 True" 90 100 80]
    by simp
qed

text \<open>
  C1, as stated, fails: with every one of the thirteen criteria satisfied the sum before
  the cap is 120, above 100, and \<^const>\<open>calculate_r_inst\<close> returns 100, not that sum.
\<close>

theorem inst_cap_counterexample:
  "r_inst_total (replicate 13 True) inst_scores = 120
   \<and> calculate_r_inst (replicate 13 True) inst_scores = 100
   \<and> \<not> (r_inst_total (replicate 13 True) inst_scores \<le> 100
         \<and> calculate_r_inst (replicate 13 True) inst_scores
             = r_inst_total (replicate 13 True) inst_scores)"
  by (simp add: calculate_r_inst_def all_true_total)

text \<open>
  C1, amended: the point values of \<^const>\<open>INST_CRITERIA\<close> add up to 120, so the cap is
  not a no-op. For every indicator vector the sum before the cap is between 0 and 120,
  and \<^const>\<open>calculate_r_inst\<close> returns that sum when it is at most 100 and 100
  otherwise.
\<close>

theorem inst_cap_effective:
  "sum_list (map snd INST_CRITERIA) = 120
   \<and> 0 \<le> r_inst_total indicators inst_scores
   \<and> r_inst_total indicators inst_scores \<le> 120
   \<and> calculate_r_inst indicators inst_scores
       = (if r_inst_total indicators inst_scores \<le> 100
          then r_inst_total indicators inst_scores else 100)"
  using r_inst_total_catalog_bounds [of indicators] inst_scores_sum
  by (simp add: calculate_r_inst_def inst_scores_def)

theorem inst_cap_effective_witness:
  "r_inst_total [True, False, True] inst_scores = 20
   \<and> calculate_r_inst [True, False, True] inst_scores = 20"
proof -
  have "r_inst_total [True, False, True] inst_scores = 20"
    by (simp add: r_inst_total_def inst_scores_def INST_CRITERIA_def)
  then show ?thesis
    using inst_cap_effective [of "[True, False, True]"] by simp
qed

subsection \<open>Rating bands\<close>

text \<open>
  C2: \<^const>\<open>get_quality_rating\<close> puts every score in exactly one of five bands, the
  first matching test of the chain deciding: above 100 is very high, from 76 to 100
  high, from 51 up to 76 medium, from 26 up to 51 low, below 26 critically low. So
  100 is high, 100.0001 very high, 76 high and 75.9999 medium.
\<close>

theorem quality_rating_bands:
  "(fst (get_quality_rating v) = Very_High \<longleftrightarrow> 100 < v)
   \<and> (fst (get_quality_rating v) = High \<longleftrightarrow> 76 \<le> v \<and> v \<le> 100)
   \<and> (fst (get_quality_rating v) = Medium \<longleftrightarrow> 51 \<le> v \<and> v < 76)
   \<and> (fst (get_quality_rating v) = Low \<longleftrightarrow> 26 \<le> v \<and> v < 51)
   \<and> (fst (get_quality_rating v) = Critically_Low \<longleftrightarrow> v < 26)
   \<and> fst (get_quality_rating 100) = High
   \<and> fst (get_quality_rating 100.0001) = Very_High
   \<and> fst (get_quality_rating 76) = High
   \<and> fst (get_quality_rating 75.9999) = Medium"
  by (simp add: get_quality_rating_def)

theorem quality_rating_bands_witness:
  "(100 :: real) < 120 \<and> fst (get_quality_rating 120) = Very_High
   \<and> fst (get_quality_rating 60) = Medium
   \<and> fst (get_quality_rating 30) = Low
   \<and> fst (get_quality_rating 25.5) = Critically_Low"
  using quality_rating_bands [of 120] quality_rating_bands [of 60]
    quality_rating_bands [of 30] quality_rating_bands [of "25.5"]
  by simp

subsection \<open>Media index\<close>

text \<open>
  C8: for a positive \<open>x_ref\<close> and any value, \<^const>\<open>calculate_i_media\<close> returns
  \<open>value / x_ref * 100\<close> clamped to the interval from 0 to 100; for \<open>x_ref\<close> at most 0
  it returns 0, and at \<open>x_ref = 0\<close>, where the division itself would raise, no error
  comes out.
\<close>

theorem i_media_clamped:
  "(0 < x_ref \<longrightarrow>
      calculate_i_media val_i x_ref = Inr (max 0 (min 100 (val_i / x_ref * 100)))
      \<and> (\<exists>r. calculate_i_media val_i x_ref = Inr r \<and> 0 \<le> r \<and> r \<le> 100))
   \<and> (x_ref \<le> 0 \<longrightarrow> calculate_i_media val_i x_ref = Inr 0)
   \<and> py_truediv val_i 0 = Inl ZeroDivisionError
   \<and> calculate_i_media val_i 0 = Inr 0"
  by (auto simp add: calculate_i_media_def py_truediv_def Let_def max_def min_def)

theorem i_media_clamped_witness:
  "(0 :: real) < 45000 \<and> calculate_i_media 45000 45000 = Inr 100
   \<and> calculate_i_media 9000 45000 = Inr 20
   \<and> calculate_i_media (- 5) 45000 = Inr 0
   \<and> (- 1 :: real) \<le> 0 \<and> calculate_i_media 7 (- 1) = Inr 0"
  using i_media_clamped [of 45000 45000] i_media_clamped [of 45000 9000]
    i_media_clamped [of 45000 "- 5"] i_media_clamped [of "- 1" 7]
  by simp

subsection \<open>Employer-brand percentile\<close>

text \<open>
  C9: \<^const>\<open>calculate_v_hr\<close> returns 0 when the number of participants is at most 1;
  for more than one participant and any rank it returns
  \<open>(1 - (rank - 1) / (total - 1)) * 100\<close> clamped to the interval from 0 to 100; rank 45
  of 700 gives 65500/699, within 0.01 of 93.7.
\<close>

theorem v_hr_percentile:
  "(total_n \<le> 1 \<longrightarrow> calculate_v_hr rank total_n = Inr 0)
   \<and> (1 < total_n \<longrightarrow>
        calculate_v_hr rank total_n
          = Inr (max 0 (min 100 ((1 - real_of_int (rank - 1) / real_of_int (total_n - 1)) * 100))))
   \<and> calculate_v_hr 45 700 = Inr (65500 / 699)
   \<and> \<bar>65500 / 699 - 93.7\<bar> < (0.01 :: real)"
  by (auto simp add: calculate_v_hr_def py_truediv_def Let_def)

theorem v_hr_percentile_witness:
  "(1 :: int) \<le> 1 \<and> calculate_v_hr 1 1 = Inr 0
   \<and> (1 :: int) < 5 \<and> calculate_v_hr 2 5 = Inr 75
   \<and> calculate_v_hr 9 5 = Inr 0
   \<and> calculate_v_hr 0 5 = Inr 100"
  using v_hr_percentile [of 1 1] v_hr_percentile [of 5 2] v_hr_percentile [of 5 9]
    v_hr_percentile [of 5 0]
  by simp

subsection \<open>Budget discipline\<close>

text \<open>
  C6: \<^const>\<open>get_k_budget\<close> returns 0 when the plan is at most 0; for a positive plan it
  returns -0.10 exactly when the deviation \<open>(fact - plan) / plan * 100\<close> is above 10 and
  no approval was recorded, and 0 otherwise; with an approval it returns 0 whatever the
  deviation. Plan 430 with fact 450 gives 0, with fact 480 gives -0.10.
\<close>

theorem k_budget_penalty:
  "(plan \<le> 0 \<longrightarrow> get_k_budget plan fact_v has_approval = Inr 0)
   \<and> (0 < plan \<longrightarrow>
        get_k_budget plan fact_v has_approval
          = Inr (if (fact_v - plan) / plan * 100 > 10 \<and> \<not> has_approval then - 0.10 else 0))
   \<and> get_k_budget plan fact_v True = Inr 0
   \<and> get_k_budget 430 450 False = Inr 0
   \<and> get_k_budget 430 480 False = Inr (- 0.10)"
  by (auto simp add: get_k_budget_def py_truediv_def Let_def)

theorem k_budget_penalty_witness:
  "(0 :: real) \<le> 0 \<and> get_k_budget 0 50 False = Inr 0
   \<and> (0 :: real) < 100 \<and> get_k_budget 100 111 False = Inr (- 0.10)
   \<and> get_k_budget 100 110 False = Inr 0
   \<and> get_k_budget 100 500 True = Inr 0"
  using k_budget_penalty [of 0 50 False] k_budget_penalty [of 100 111 False]
    k_budget_penalty [of 100 110 False] k_budget_penalty [of 100 500 True]
  by simp

subsection \<open>Media stability\<close>

text \<open>
  C4, as stated, fails. For \<open>i_media = 0\<close>, a value \<^const>\<open>calculate_i_media\<close> returns,
  the result is 0 at the finite volatility 1: it does reach 0. For the negative
  \<open>i_media = -100\<close> the result rises from -100 to -50 when the volatility rises from 0
  to 1.
\<close>

theorem m_stab_counterexample:
  "calculate_m_stab 0 (Finite 1) = Inr 0
   \<and> calculate_m_stab (- 100) (Finite 0) = Inr (- 100)
   \<and> calculate_m_stab (- 100) (Finite 1) = Inr (- 50)
   \<and> (0 :: real) \<le> 0 \<and> (0 :: real) < 1 \<and> (- 100 :: real) < - 50"
  by (simp add: py_truediv_def)

lemma m_stab_finite: "0 \<le> v \<Longrightarrow> calculate_m_stab i_media (Finite v) = Inr (i_media / (1 + v))"
  by (simp add: py_truediv_def)

lemma damping_small:
  fixes i_media e v :: real
  assumes "0 \<le> i_media" "0 < e" "i_media / e \<le> v"
  shows "i_media / (1 + v) < e"
proof -
  have v0: "0 \<le> v" using assms by (smt (verit) divide_nonneg_pos)
  have "i_media \<le> v * e" using assms by (simp add: pos_divide_le_eq)
  also have "v * e < (1 + v) * e" using assms by (simp add: distrib_right)
  finally have "i_media < (1 + v) * e" .
  with v0 show ?thesis by (simp add: pos_divide_less_eq mult.commute)
qed

text \<open>
  C4, amended: \<^const>\<open>calculate_m_stab\<close> returns 0 for the infinite volatility and
  \<open>i_media\<close> itself for the volatility 0. For a fixed \<open>i_media\<close> that is not negative, a
  larger finite volatility (from 0 on) never gives a larger result. For a positive
  \<open>i_media\<close> the result is positive at every such volatility, and it falls below every
  positive bound once the volatility is large enough; for \<open>i_media = 0\<close> it is 0
  throughout.
\<close>

theorem m_stab_damping:
  "calculate_m_stab i_media Infinity = Inr 0
   \<and> calculate_m_stab i_media (Finite 0) = Inr i_media
   \<and> (0 \<le> i_media \<and> 0 \<le> v \<and> v \<le> w \<longrightarrow>
        (\<exists>a b. calculate_m_stab i_media (Finite v) = Inr a
              \<and> calculate_m_stab i_media (Finite w) = Inr b \<and> b \<le> a))
   \<and> (0 < i_media \<and> 0 \<le> v \<longrightarrow>
        (\<exists>a. calculate_m_stab i_media (Finite v) = Inr a \<and> 0 < a))
   \<and> (0 \<le> v \<longrightarrow> calculate_m_stab 0 (Finite v) = Inr 0)
   \<and> (0 \<le> i_media \<and> 0 < e \<longrightarrow>
        (\<exists>b\<ge>0. \<forall>v\<ge>b. \<exists>a. calculate_m_stab i_media (Finite v) = Inr a \<and> 0 \<le> a \<and> a < e))"
proof (intro conjI impI)
  show "calculate_m_stab i_media Infinity = Inr 0" by simp
  show "calculate_m_stab i_media (Finite 0) = Inr i_media" by (simp add: py_truediv_def)
  show "\<exists>a b. calculate_m_stab i_media (Finite v) = Inr a
              \<and> calculate_m_stab i_media (Finite w) = Inr b \<and> b \<le> a"
    if h: "0 \<le> i_media \<and> 0 \<le> v \<and> v \<le> w"
  proof -
    have "i_media / (1 + w) \<le> i_media / (1 + v)"
      using h by (intro divide_left_mono) (auto intro: mult_pos_pos)
    moreover have "calculate_m_stab i_media (Finite v) = Inr (i_media / (1 + v))"
      using h by (intro m_stab_finite) simp
    moreover have "calculate_m_stab i_media (Finite w) = Inr (i_media / (1 + w))"
      using h by (intro m_stab_finite) simp
    ultimately show ?thesis by blast
  qed
  show "\<exists>a. calculate_m_stab i_media (Finite v) = Inr a \<and> 0 < a" if "0 < i_media \<and> 0 \<le> v"
    using that m_stab_finite [of v i_media] by simp
  show "calculate_m_stab 0 (Finite v) = Inr 0" if "0 \<le> v"
    using that m_stab_finite [of v 0] by simp
  show "\<exists>b\<ge>0. \<forall>v\<ge>b. \<exists>a. calculate_m_stab i_media (Finite v) = Inr a \<and> 0 \<le> a \<and> a < e"
    if h: "0 \<le> i_media \<and> 0 < e"
  proof (intro exI conjI allI impI)
    show b0: "0 \<le> i_media / e" using h by simp
    fix v assume v: "i_media / e \<le> v"
    with b0 have v0: "0 \<le> v" by simp
    then show "calculate_m_stab i_media (Finite v) = Inr (i_media / (1 + v))"
      by (rule m_stab_finite)
    show "0 \<le> i_media / (1 + v)" using h v0 by simp
    show "i_media / (1 + v) < e" using h v by (intro damping_small) simp_all
  qed
qed

theorem m_stab_damping_witness:
  "(0 :: real) \<le> 80 \<and> (0 :: real) \<le> 1 \<and> (1 :: real) \<le> 3
   \<and> calculate_m_stab 80 (Finite 1) = Inr 40
   \<and> calculate_m_stab 80 (Finite 3) = Inr 20
   \<and> calculate_m_stab 0 (Finite 3) = Inr 0
   \<and> (0 :: real) < 1
   \<and> (\<exists>b\<ge>0. \<forall>v\<ge>b. \<exists>a. calculate_m_stab 80 (Finite v) = Inr a \<and> 0 \<le> a \<and> a < 1)"
proof -
  have a: "calculate_m_stab 80 (Finite 1) = Inr 40" "calculate_m_stab 80 (Finite 3) = Inr 20"
    by (simp_all add: py_truediv_def)
  show ?thesis
    using a m_stab_damping [of 80 1 3 1] m_stab_damping [of 0 3 3 1] by simp
qed

subsection \<open>Volatility\<close>

lemma noise_threshold_pos: "0 < noise_threshold x_ref"
  by (simp add: noise_threshold_def split: option.split)

lemma np_mean_population: "np_mean xs = population_mean xs"
  by (simp add: np_mean_def population_mean_def)

lemma np_std_population: "np_std xs = population_std xs"
  by (simp add: np_std_def population_std_def np_mean_def population_mean_def comp_def)

lemma v_vol_unfold:
  "calculate_v_vol xs x_ref =
     (if length xs < 2 then Finite 0
      else if population_mean xs < noise_threshold x_ref then Infinity
      else Finite (population_std xs / population_mean xs))"
  by (simp add: calculate_v_vol_def Let_def np_mean_population np_std_population
      noise_threshold_def split: option.split)

text \<open>
  C3: \<^const>\<open>calculate_v_vol\<close> returns 0 for a series of fewer than 2 values. For a
  longer series, with the threshold \<^const>\<open>noise_threshold\<close>, it returns the infinite
  value when the population mean is below the threshold, and otherwise (the mean is
  then positive) the population standard deviation divided by the population mean.
  Twelve months at 3900 with \<open>x_ref = 45000\<close> give 0.
\<close>

theorem v_vol_ratio:
  "(length xs < 2 \<longrightarrow> calculate_v_vol xs x_ref = Finite 0)
   \<and> (2 \<le> length xs \<and> population_mean xs < noise_threshold x_ref \<longrightarrow>
        calculate_v_vol xs x_ref = Infinity)
   \<and> (2 \<le> length xs \<and> noise_threshold x_ref \<le> population_mean xs \<longrightarrow>
        0 < population_mean xs
        \<and> calculate_v_vol xs x_ref = Finite (population_std xs / population_mean xs))
   \<and> calculate_v_vol [3900, 3900, 3900, 3900, 3900, 3900, 3900, 3900, 3900, 3900, 3900, 3900]
        (Some 45000) = Finite 0"
proof (intro conjI impI)
  show "calculate_v_vol xs x_ref = Finite 0" if "length xs < 2"
    using that by (simp add: v_vol_unfold)
  show "calculate_v_vol xs x_ref = Infinity"
    if "2 \<le> length xs \<and> population_mean xs < noise_threshold x_ref"
    using that by (simp add: v_vol_unfold)
  show "0 < population_mean xs"
    if "2 \<le> length xs \<and> noise_threshold x_ref \<le> population_mean xs"
    using that noise_threshold_pos [of x_ref] by simp
  show "calculate_v_vol xs x_ref = Finite (population_std xs / population_mean xs)"
    if "2 \<le> length xs \<and> noise_threshold x_ref \<le> population_mean xs"
    using that by (simp add: v_vol_unfold)
  show "calculate_v_vol [3900, 3900, 3900, 3900, 3900, 3900, 3900, 3900, 3900, 3900, 3900, 3900]
        (Some 45000) = Finite 0"
    by (simp add: v_vol_unfold population_mean_def population_std_def noise_threshold_def)
qed

theorem v_vol_ratio_witness:
  "length [5 :: real] < 2 \<and> calculate_v_vol [5] None = Finite 0
   \<and> 2 \<le> length [0 :: real, 0] \<and> population_mean [0, 0] < noise_threshold None
   \<and> calculate_v_vol [0, 0] None = Infinity
   \<and> 2 \<le> length [2 :: real, 4] \<and> noise_threshold (Some 100) \<le> population_mean [2, 4]
   \<and> calculate_v_vol [2, 4] (Some 100) = Finite (1 / 3)"
proof -
  have a: "length [5 :: real] < 2" by simp
  have b: "2 \<le> length [0 :: real, 0] \<and> population_mean [0, 0] < noise_threshold None"
    by (simp add: population_mean_def noise_threshold_def)
  have c: "2 \<le> length [2 :: real, 4] \<and> noise_threshold (Some 100) \<le> population_mean [2, 4]"
    by (simp add: population_mean_def noise_threshold_def)
  have d: "population_std [2, 4] / population_mean [2, 4] = 1 / 3"
    by (simp add: population_mean_def population_std_def)
  show ?thesis
    using a b c d v_vol_ratio [of "[5]" None] v_vol_ratio [of "[0, 0]" None]
      v_vol_ratio [of "[2, 4]" "Some 100"]
    by simp
qed

subsection \<open>Recommendations\<close>

lemma sort_key_of_le: "sort_key_of a \<le> sort_key_of b \<longleftrightarrow> ranked_before a b"
  by (auto simp add: sort_key_of_def ranked_before_def)

lemma sort_key_of_eq:
  "sort_key_of x = (p, - q) \<longleftrightarrow> priority x = p \<and> potential x = q"
  by (auto simp add: sort_key_of_def)

lemma sorted_by_key: "sorted_wrt ranked_before (sort_key sort_key_of cs)"
proof -
  have "sorted (map sort_key_of (sort_key sort_key_of cs))"
    by (rule sorted_sort_key)
  then show ?thesis
    by (simp add: sorted_map sort_key_of_le)
qed

lemma stable_by_key:
  "filter (\<lambda>x. priority x = p \<and> potential x = q) (sort_key sort_key_of cs)
     = filter (\<lambda>x. priority x = p \<and> potential x = q) cs"
  using sort_key_stable [of sort_key_of "(p, - q)" cs]
  by (simp add: sort_key_of_eq)

lemma transp_gaps_shape:
  "x \<in> set (transp_gaps tv) \<Longrightarrow> is_checklist_gap x \<and> priority x = 2 \<and> potential x = 10"
  by (auto simp add: transp_gaps_def is_checklist_gap_def)

lemma inst_gaps_shape:
  "x \<in> set (inst_gaps iv) \<Longrightarrow> is_checklist_gap x \<and> (priority x = 2 \<or> priority x = 3)"
  by (auto simp add: inst_gaps_def is_checklist_gap_def split: if_splits)

lemma fixed_items_shape:
  "\<not> is_checklist_gap hr_brand_item \<and> priority hr_brand_item = 1
   \<and> \<not> is_checklist_gap media_activity_item \<and> priority media_activity_item = 1"
  by (simp add: hr_brand_item_def media_activity_item_def is_checklist_gap_def)

lemma collected_cases:
  assumes "x \<in> set (collect_recommendations tv iv v_hr m_stab)"
  shows "(is_checklist_gap x \<and> (priority x = 2 \<or> priority x = 3))
       \<or> (\<not> is_checklist_gap x \<and> priority x = 1
           \<and> ((x = hr_brand_item \<and> v_hr < 50) \<or> (x = media_activity_item \<and> m_stab < 50)))"
proof -
  from assms consider
    "x \<in> set (transp_gaps tv)" | "x \<in> set (inst_gaps iv)"
    | "x = hr_brand_item" "v_hr < 50" | "x = media_activity_item" "m_stab < 50"
    by (auto simp add: collect_recommendations_def split: if_splits)
  then show ?thesis
  proof cases
    case 1 then show ?thesis using transp_gaps_shape [of x tv] by simp
  next
    case 2 then show ?thesis using inst_gaps_shape [of x iv] by blast
  next
    case 3 then show ?thesis using fixed_items_shape by simp
  next
    case 4 then show ?thesis using fixed_items_shape by simp
  qed
qed

lemma generated_subset:
  "set (generate_recommendations tv iv sc v_hr m_stab)
     \<subseteq> set (collect_recommendations tv iv v_hr m_stab)"
proof -
  have "set (take 5 (sort_key sort_key_of (collect_recommendations tv iv v_hr m_stab)))
          \<subseteq> set (sort_key sort_key_of (collect_recommendations tv iv v_hr m_stab))"
    by (rule set_take_subset)
  then show ?thesis by (simp add: generate_recommendations_def)
qed

lemma generated_sorted:
  "sorted_wrt ranked_before (generate_recommendations tv iv sc v_hr m_stab)"
  unfolding generate_recommendations_def
  by (intro sorted_wrt_take sorted_by_key)

lemma priority_one_first:
  assumes rs: "rs = generate_recommendations tv iv sc v_hr m_stab"
    and i: "i < length rs" and j: "j < length rs"
    and pi: "priority (rs ! i) = 1" and gj: "is_checklist_gap (rs ! j)"
  shows "i < j"
proof (rule ccontr)
  assume "\<not> i < j"
  then have "j \<le> i" by simp
  have "rs ! j \<in> set (collect_recommendations tv iv v_hr m_stab)"
    using j generated_subset [of tv iv sc v_hr m_stab] rs by auto
  then have pj: "priority (rs ! j) = 2 \<or> priority (rs ! j) = 3"
    using collected_cases [of "rs ! j" tv iv v_hr m_stab] gj by blast
  with pi have "i \<noteq> j" by auto
  with \<open>j \<le> i\<close> have "j < i" by simp
  then have "ranked_before (rs ! j) (rs ! i)"
    using generated_sorted [of tv iv sc v_hr m_stab] i rs
    by (auto intro: sorted_wrt_nth_less)
  with pi pj show False by (auto simp add: ranked_before_def)
qed

text \<open>
  C5: \<^const>\<open>generate_recommendations\<close> returns at most 5 entries, in the order
  \<^const>\<open>ranked_before\<close>. The result is the first 5 entries of a rearrangement of the
  collected list that is in that order and keeps entries of equal priority and
  potential in the order in which they were collected (a stable sort). Every entry
  returned is a checklist gap of priority 2 or 3 or one of the two fixed entries of
  priority 1, and an entry of priority 1 stands before every checklist gap.
\<close>

theorem recommendations_ranked:
  "let cs = collect_recommendations tv iv v_hr m_stab;
       rs = generate_recommendations tv iv sc v_hr m_stab
   in length rs \<le> 5
      \<and> sorted_wrt ranked_before rs
      \<and> (\<exists>s. rs = take 5 s \<and> mset s = mset cs \<and> sorted_wrt ranked_before s
             \<and> (\<forall>p q. filter (\<lambda>x. priority x = p \<and> potential x = q) s
                        = filter (\<lambda>x. priority x = p \<and> potential x = q) cs))
      \<and> (\<forall>x \<in> set rs.
            (is_checklist_gap x \<and> (priority x = 2 \<or> priority x = 3))
            \<or> (\<not> is_checklist_gap x \<and> priority x = 1
                \<and> ((x = hr_brand_item \<and> v_hr < 50) \<or> (x = media_activity_item \<and> m_stab < 50))))
      \<and> (\<forall>i < length rs. \<forall>j < length rs.
            priority (rs ! i) = 1 \<and> is_checklist_gap (rs ! j) \<longrightarrow> i < j)"
proof -
  define cs where "cs = collect_recommendations tv iv v_hr m_stab"
  define rs where "rs = generate_recommendations tv iv sc v_hr m_stab"
  have rs_take: "rs = take 5 (sort_key sort_key_of cs)"
    by (simp add: rs_def cs_def generate_recommendations_def)
  have 1: "length rs \<le> 5" by (simp add: rs_take)
  have 2: "sorted_wrt ranked_before rs"
    unfolding rs_def by (rule generated_sorted)
  have 3: "\<exists>s. rs = take 5 s \<and> mset s = mset cs \<and> sorted_wrt ranked_before s
             \<and> (\<forall>p q. filter (\<lambda>x. priority x = p \<and> potential x = q) s
                        = filter (\<lambda>x. priority x = p \<and> potential x = q) cs)"
  proof (intro exI conjI allI)
    show "rs = take 5 (sort_key sort_key_of cs)" by (rule rs_take)
    show "mset (sort_key sort_key_of cs) = mset cs" by simp
    show "sorted_wrt ranked_before (sort_key sort_key_of cs)" by (rule sorted_by_key)
    show "filter (\<lambda>x. priority x = p \<and> potential x = q) (sort_key sort_key_of cs)
            = filter (\<lambda>x. priority x = p \<and> potential x = q) cs" for p q
      by (rule stable_by_key)
  qed
  have 4: "\<forall>x \<in> set rs.
            (is_checklist_gap x \<and> (priority x = 2 \<or> priority x = 3))
            \<or> (\<not> is_checklist_gap x \<and> priority x = 1
                \<and> ((x = hr_brand_item \<and> v_hr < 50) \<or> (x = media_activity_item \<and> m_stab < 50)))"
  proof
    fix x assume "x \<in> set rs"
    then have "x \<in> set (collect_recommendations tv iv v_hr m_stab)"
      using generated_subset [of tv iv sc v_hr m_stab] by (auto simp add: rs_def)
    then show "(is_checklist_gap x \<and> (priority x = 2 \<or> priority x = 3))
            \<or> (\<not> is_checklist_gap x \<and> priority x = 1
                \<and> ((x = hr_brand_item \<and> v_hr < 50) \<or> (x = media_activity_item \<and> m_stab < 50)))"
      by (rule collected_cases)
  qed
  have 5: "\<forall>i < length rs. \<forall>j < length rs.
            priority (rs ! i) = 1 \<and> is_checklist_gap (rs ! j) \<longrightarrow> i < j"
    using priority_one_first [OF rs_def] by blast
  from 1 2 3 4 5 show ?thesis
    unfolding Let_def cs_def rs_def by (intro conjI)
qed

theorem recommendations_ranked_witness:
  "generate_recommendations
       [True, True, False, True, True, True, True, True, True, True]
       [True, True, True, True, False, True, False, True, True, True, True, True, True]
       inst_scores 40 70
     = [hr_brand_item,
        \<lparr>area = ''Transparency'', action = ''A sustainability report (ESG/CSR) is published'',
         potential = 10, priority = 2\<rparr>,
        \<lparr>area = ''Institutional maturity'',
         action = ''The communication strategy is publicly available'',
         potential = 10, priority = 2\<rparr>,
        \<lparr>area = ''Institutional maturity'', action = ''The company runs an official VK community'',
         potential = 5, priority = 3\<rparr>]
   \<and> priority hr_brand_item = 1
   \<and> is_checklist_gap
        \<lparr>area = ''Transparency'', action = ''A sustainability report (ESG/CSR) is published'',
         potential = 10, priority = 2\<rparr>
   \<and> (0 :: nat) < 1
   \<and> sorted_wrt ranked_before
        (generate_recommendations
           [True, True, False, True, True, True, True, True, True, True]
           [True, True, True, True, False, True, False, True, True, True, True, True, True]
           inst_scores 40 70)
   \<and> length (generate_recommendations (replicate 10 False) (replicate 13 False)
               inst_scores 40 30) = 5"
proof -
  have a: "generate_recommendations
       [True, True, False, True, True, True, True, True, True, True]
       [True, True, True, True, False, True, False, True, True, True, True, True, True]
       inst_scores 40 70
     = [hr_brand_item,
        \<lparr>area = ''Transparency'', action = ''A sustainability report (ESG/CSR) is published'',
         potential = 10, priority = 2\<rparr>,
        \<lparr>area = ''Institutional maturity'',
         action = ''The communication strategy is publicly available'',
         potential = 10, priority = 2\<rparr>,
        \<lparr>area = ''Institutional maturity'', action = ''The company runs an official VK community'',
         potential = 5, priority = 3\<rparr>]"
    by (simp add: generate_recommendations_def collect_recommendations_def transp_gaps_def
        inst_gaps_def TRANSP_CRITERIA_def INST_CRITERIA_def hr_brand_item_def sort_key_of_def)
  have b: "length (generate_recommendations (replicate 10 False) (replicate 13 False)
               inst_scores 40 30) = 5"
    by (simp add: generate_recommendations_def collect_recommendations_def transp_gaps_def
        inst_gaps_def TRANSP_CRITERIA_def INST_CRITERIA_def numeral_eq_Suc)
  have c: "priority hr_brand_item = 1
     \<and> is_checklist_gap
          \<lparr>area = ''Transparency'', action = ''A sustainability report (ESG/CSR) is published'',
           potential = 10, priority = 2\<rparr>"
    by (simp add: hr_brand_item_def is_checklist_gap_def)
  have d: "sorted_wrt ranked_before
        (generate_recommendations
           [True, True, False, True, True, True, True, True, True, True]
           [True, True, True, True, False, True, False, True, True, True, True, True, True]
           inst_scores 40 70)"
    using recommendations_ranked
      [where tv = "[True, True, False, True, True, True, True, True, True, True]"
         and iv = "[True, True, True, True, False, True, False, True, True, True, True, True, True]"
         and sc = inst_scores and v_hr = 40 and m_stab = 70]
    unfolding Let_def by blast
  from a b c d show ?thesis by blast
qed

end
